theory Spec2Isabelle
  imports Main "HOL-Library.Sublist"
begin

section \<open>Python values, objects and the world\<close>

text \<open>
  The module \<^verbatim>\<open>basic.py\<close> declares four concrete classes. \<open>OrderContext\<close> is the
  abstract base of the two context classes and is never instantiated.
\<close>

datatype cls = Order | SqlLiteOrderContext | MemoryOrderContext | OrderService

text \<open>Python values: references are addresses into the heap, so \<open>is\<close> is address equality.\<close>

datatype pyval = PyNone | PyStr string | PyBool bool | PyRef nat

text \<open>
  One constructor per class, carrying the instance attributes the class assigns in
  \<open>__init__\<close>: \<open>Order.order_id\<close> and \<open>OrderService.order_context\<close>. Attributes hold
  arbitrary values, since the annotations of the source are not enforced.
\<close>

datatype pyobj =
    OrderObj pyval
  | SqlLiteOrderContextObj
  | MemoryOrderContextObj
  | OrderServiceObj pyval

text \<open>
  What a call can raise: Python's \<open>AttributeError\<close> and \<open>TypeError\<close>; the three configuration
  errors of the container (the specification names the first two; the third stands for its
  "ambiguous binding"); and \<open>DanglingReference\<close>, for a reference beyond the heap, which no
  Python program can hold and only an arbitrary world of the model can.
\<close>

datatype error =
    AttributeError
  | TypeError
  | DanglingReference
  | BindingNotFoundError
  | CyclicDependencyError
  | AmbiguousBindingError

text \<open>
  The world: the heap (an object's address is its index; objects are never freed while a
  scenario runs), the text written to standard output, and \<open>calls\<close>, a log with one entry
  (method, receiver, argument) per method entry. The log is instrumentation: it is what
  makes "called exactly once with this argument" a statement about a run.
\<close>

record world =
  heap :: "pyobj list"
  stdout :: string
  calls :: "(string \<times> pyval \<times> pyval) list"

text \<open>A computation returns a value or raises, and leaves a world behind either way.\<close>

type_synonym 'a result = "(error + 'a) \<times> world"

definition and_then :: "(world \<Rightarrow> 'a result) \<Rightarrow> ('a \<Rightarrow> world \<Rightarrow> 'b result) \<Rightarrow> world \<Rightarrow> 'b result" where
  "and_then m f w = (case m w of (Inl e, w') \<Rightarrow> (Inl e, w') | (Inr v, w') \<Rightarrow> f v w')"

definition alloc :: "pyobj \<Rightarrow> world \<Rightarrow> pyval result" where
  "alloc obj w = (Inr (PyRef (length (heap w))), w\<lparr>heap := heap w @ [obj]\<rparr>)"

definition deref :: "world \<Rightarrow> pyval \<Rightarrow> error + pyobj" where
  "deref w v = (case v of
      PyRef a \<Rightarrow> (if a < length (heap w) then Inr (heap w ! a) else Inl DanglingReference)
    | _ \<Rightarrow> Inl AttributeError)"

definition class_of :: "pyobj \<Rightarrow> cls" where
  "class_of obj = (case obj of
      OrderObj _ \<Rightarrow> Order
    | SqlLiteOrderContextObj \<Rightarrow> SqlLiteOrderContext
    | MemoryOrderContextObj \<Rightarrow> MemoryOrderContext
    | OrderServiceObj _ \<Rightarrow> OrderService)"

definition cls_name :: "cls \<Rightarrow> string" where
  "cls_name c = (case c of
      Order \<Rightarrow> ''Order''
    | SqlLiteOrderContext \<Rightarrow> ''SqlLiteOrderContext''
    | MemoryOrderContext \<Rightarrow> ''MemoryOrderContext''
    | OrderService \<Rightarrow> ''OrderService'')"

text \<open>\<^verbatim>\<open>v.__class__.__name__\<close>\<close>

definition type_name :: "world \<Rightarrow> pyval \<Rightarrow> error + string" where
  "type_name w v = (case v of
      PyNone \<Rightarrow> Inr ''NoneType''
    | PyStr _ \<Rightarrow> Inr ''str''
    | PyBool _ \<Rightarrow> Inr ''bool''
    | PyRef a \<Rightarrow> (case deref w v of Inl e \<Rightarrow> Inl e | Inr obj \<Rightarrow> Inr (cls_name (class_of obj))))"

text \<open>\<^verbatim>\<open>print(s)\<close> writes the text and a newline.\<close>

definition print :: "string \<Rightarrow> world \<Rightarrow> pyval result" where
  "print s w = (Inr PyNone, w\<lparr>stdout := stdout w @ s @ [CHR 0x0A]\<rparr>)"

definition str_bool :: "bool \<Rightarrow> string" where
  "str_bool b = (if b then ''True'' else ''False'')"

text \<open>\<^verbatim>\<open>a is b\<close>: identity of references. The code applies it to instances only.\<close>

definition py_is :: "pyval \<Rightarrow> pyval \<Rightarrow> bool" where
  "py_is a b = (a = b)"

definition enter :: "string \<Rightarrow> pyval \<Rightarrow> pyval \<Rightarrow> world \<Rightarrow> world" where
  "enter m self arg w = w\<lparr>calls := calls w @ [(m, self, arg)]\<rparr>"

section \<open>The classes of basic.py\<close>

text \<open>\<^verbatim>\<open>Order(order_id)\<close>, \<^verbatim>\<open>SqlLiteOrderContext()\<close>, \<^verbatim>\<open>MemoryOrderContext()\<close>,
  \<^verbatim>\<open>OrderService(order_context)\<close>\<close>

definition Order_init :: "pyval \<Rightarrow> world \<Rightarrow> pyval result" where
  "Order_init order_id = alloc (OrderObj order_id)"

definition SqlLiteOrderContext_init :: "world \<Rightarrow> pyval result" where
  "SqlLiteOrderContext_init = alloc SqlLiteOrderContextObj"

definition MemoryOrderContext_init :: "world \<Rightarrow> pyval result" where
  "MemoryOrderContext_init = alloc MemoryOrderContextObj"

definition OrderService_init :: "pyval \<Rightarrow> world \<Rightarrow> pyval result" where
  "OrderService_init order_context = alloc (OrderServiceObj order_context)"

text \<open>The two \<open>create_order\<close> bodies are the same text: print the receiver's class name.\<close>

definition SqlLiteOrderContext_create_order :: "pyval \<Rightarrow> pyval \<Rightarrow> world \<Rightarrow> pyval result" where
  "SqlLiteOrderContext_create_order self order w =
     (let w1 = enter ''SqlLiteOrderContext.create_order'' self order w in
      case type_name w1 self of
        Inl e \<Rightarrow> (Inl e, w1)
      | Inr n \<Rightarrow> print (''Order created by '' @ n) w1)"

definition MemoryOrderContext_create_order :: "pyval \<Rightarrow> pyval \<Rightarrow> world \<Rightarrow> pyval result" where
  "MemoryOrderContext_create_order self order w =
     (let w1 = enter ''MemoryOrderContext.create_order'' self order w in
      case type_name w1 self of
        Inl e \<Rightarrow> (Inl e, w1)
      | Inr n \<Rightarrow> print (''Order created by '' @ n) w1)"

text \<open>\<^verbatim>\<open>recv.create_order(order)\<close>: dispatch on the class of the receiver.\<close>

definition create_order :: "pyval \<Rightarrow> pyval \<Rightarrow> world \<Rightarrow> pyval result" where
  "create_order recv order w = (case deref w recv of
      Inl e \<Rightarrow> (Inl e, w)
    | Inr SqlLiteOrderContextObj \<Rightarrow> SqlLiteOrderContext_create_order recv order w
    | Inr MemoryOrderContextObj \<Rightarrow> MemoryOrderContext_create_order recv order w
    | Inr _ \<Rightarrow> (Inl AttributeError, w))"

text \<open>\<^verbatim>\<open>v.order_context\<close> and \<^verbatim>\<open>v.order_id\<close>\<close>

definition get_order_context :: "pyval \<Rightarrow> world \<Rightarrow> pyval result" where
  "get_order_context v w = (case deref w v of
      Inl e \<Rightarrow> (Inl e, w)
    | Inr (OrderServiceObj c) \<Rightarrow> (Inr c, w)
    | Inr _ \<Rightarrow> (Inl AttributeError, w))"

definition get_order_id :: "pyval \<Rightarrow> world \<Rightarrow> pyval result" where
  "get_order_id v w = (case deref w v of
      Inl e \<Rightarrow> (Inl e, w)
    | Inr (OrderObj i) \<Rightarrow> (Inr i, w)
    | Inr _ \<Rightarrow> (Inl AttributeError, w))"

definition OrderService_process_order :: "pyval \<Rightarrow> pyval \<Rightarrow> world \<Rightarrow> pyval result" where
  "OrderService_process_order self order w =
     and_then (get_order_context self)
       (\<lambda>order_context. and_then (create_order order_context order) (\<lambda>_ w'. (Inr PyNone, w')))
       (enter ''OrderService.process_order'' self order w)"

text \<open>\<^verbatim>\<open>recv.process_order(order)\<close>\<close>

definition process_order :: "pyval \<Rightarrow> pyval \<Rightarrow> world \<Rightarrow> pyval result" where
  "process_order recv order w = (case deref w recv of
      Inl e \<Rightarrow> (Inl e, w)
    | Inr (OrderServiceObj _) \<Rightarrow> OrderService_process_order recv order w
    | Inr _ \<Rightarrow> (Inl AttributeError, w))"

section \<open>The container\<close>

text \<open>
  Modelled from the spec: the \<open>pinject\<close> library (\<open>new_object_graph\<close>, \<open>provide\<close>, the scopes
  and \<open>bind\<close>) is imported by \<^verbatim>\<open>basic.py\<close> and is not part of the source. The model follows
  the resolver contract of the specification: a binding maps the name of a constructor
  argument to a concrete class and a scope; \<open>provide\<close> constructs the requested class by
  resolving its declared constructor arguments against the bindings, recursively; a
  singleton-scoped dependency is constructed once and cached for all later \<open>provide\<close> calls
  on the same container, a prototype-scoped one is constructed at every resolution; a name
  with no binding fails with \<open>BindingNotFoundError\<close>, a name under resolution that is
  reached again with \<open>CyclicDependencyError\<close>, a name bound more than once with a
  configuration error, all at \<open>provide\<close> time.
\<close>

datatype scope = SINGLETON | PROTOTYPE

record binding =
  arg_name :: string
  to_class :: cls
  in_scope :: scope

text \<open>The constructor arguments a class declares (\<open>self\<close> apart).\<close>

definition init_args :: "cls \<Rightarrow> string list" where
  "init_args c = (case c of
      Order \<Rightarrow> [''order_id'']
    | SqlLiteOrderContext \<Rightarrow> []
    | MemoryOrderContext \<Rightarrow> []
    | OrderService \<Rightarrow> [''order_context''])"

text \<open>\<^verbatim>\<open>c(*args)\<close>: a wrong number of arguments is a TypeError.\<close>

definition instantiate :: "cls \<Rightarrow> pyval list \<Rightarrow> world \<Rightarrow> pyval result" where
  "instantiate c args w = (case (c, args) of
      (Order, [order_id]) \<Rightarrow> Order_init order_id w
    | (SqlLiteOrderContext, []) \<Rightarrow> SqlLiteOrderContext_init w
    | (MemoryOrderContext, []) \<Rightarrow> MemoryOrderContext_init w
    | (OrderService, [order_context]) \<Rightarrow> OrderService_init order_context w
    | _ \<Rightarrow> (Inl TypeError, w))"

text \<open>Modelled from the spec: the container, its bindings and the singleton-scoped
  instances it has constructed so far, by argument name.\<close>

type_synonym cache = "(string \<times> pyval) list"

record object_graph =
  bindings :: "binding list"
  singletons :: cache

text \<open>
  Modelled from the spec: resolution. \<open>resolve_arg\<close> resolves one argument name (\<open>stack\<close> holds
  the names under resolution), \<open>construct\<close> builds an instance of a class from its resolved
  constructor arguments, \<open>resolve_args\<close> resolves the arguments of a constructor from left to
  right.
\<close>

function resolve_arg :: "binding list \<Rightarrow> string list \<Rightarrow> string \<Rightarrow> cache \<Rightarrow> world \<Rightarrow> (pyval \<times> cache) result"
  and construct :: "binding list \<Rightarrow> string list \<Rightarrow> cls \<Rightarrow> cache \<Rightarrow> world \<Rightarrow> (pyval \<times> cache) result"
  and resolve_args :: "binding list \<Rightarrow> string list \<Rightarrow> string list \<Rightarrow> cache \<Rightarrow> world \<Rightarrow> (pyval list \<times> cache) result"
  where
  "resolve_arg bs stack name ch w =
     (if name \<in> set stack then (Inl CyclicDependencyError, w)
      else case filter (\<lambda>b. arg_name b = name) bs of
          [] \<Rightarrow> (Inl BindingNotFoundError, w)
        | [b] \<Rightarrow> (case in_scope b of
              PROTOTYPE \<Rightarrow> construct bs (name # stack) (to_class b) ch w
            | SINGLETON \<Rightarrow> (case map_of ch name of
                  Some v \<Rightarrow> (Inr (v, ch), w)
                | None \<Rightarrow> (case construct bs (name # stack) (to_class b) ch w of
                      (Inl e, w') \<Rightarrow> (Inl e, w')
                    | (Inr (v, ch'), w') \<Rightarrow> (Inr (v, (name, v) # ch'), w'))))
        | _ \<Rightarrow> (Inl AmbiguousBindingError, w))"
| "construct bs stack c ch w =
     (case resolve_args bs stack (init_args c) ch w of
        (Inl e, w') \<Rightarrow> (Inl e, w')
      | (Inr (args, ch'), w') \<Rightarrow> (case instantiate c args w' of
            (Inl e, w'') \<Rightarrow> (Inl e, w'')
          | (Inr v, w'') \<Rightarrow> (Inr (v, ch'), w'')))"
| "resolve_args bs stack [] ch w = (Inr ([], ch), w)"
| "resolve_args bs stack (n # ns) ch w =
     (case resolve_arg bs stack n ch w of
        (Inl e, w') \<Rightarrow> (Inl e, w')
      | (Inr (v, ch'), w') \<Rightarrow> (case resolve_args bs stack ns ch' w' of
            (Inl e, w'') \<Rightarrow> (Inl e, w'')
          | (Inr (vs, ch''), w'') \<Rightarrow> (Inr (v # vs, ch''), w'')))"
  by pat_completeness auto

termination resolve_arg
proof (relation "inv_image (less_than <*lex*> less_than <*lex*> less_than)
     (\<lambda>x. case x of
         Inl (bs, stack, name, ch, w) \<Rightarrow> (card (arg_name ` set bs - set stack), 0::nat, 0::nat)
       | Inr (Inl (bs, stack, c, ch, w)) \<Rightarrow> (card (arg_name ` set bs - set stack), 2, 0)
       | Inr (Inr (bs, stack, ns, ch, w)) \<Rightarrow> (card (arg_name ` set bs - set stack), 1, length ns))",
    goal_cases)
  have less: "card (arg_name ` set bs - insert name (set stack)) < card (arg_name ` set bs - set stack)"
    if f: "filter (\<lambda>b. arg_name b = name) bs = b # rest" and n: "name \<notin> set stack"
    for bs :: "binding list" and name stack b rest
  proof -
    have "b \<in> set (filter (\<lambda>b. arg_name b = name) bs)" using f by simp
    then have "name \<in> arg_name ` set bs" by auto
    with n have "name \<in> arg_name ` set bs - set stack" by simp
    moreover have "arg_name ` set bs - insert name (set stack) = (arg_name ` set bs - set stack) - {name}"
      by auto
    moreover have "finite (arg_name ` set bs - set stack)" by simp
    ultimately show ?thesis
      using card_Diff1_less [of "arg_name ` set bs - set stack" name] by simp
  qed
  {
    case 1
    show ?case by (intro wf_inv_image wf_lex_prod wf_less_than)
  next
    case 2
    then show ?case by (simp add: less)
  next
    case 3
    then show ?case by (simp add: less)
  next
    case 4
    show ?case by simp
  next
    case 5
    show ?case by simp
  next
    case 6
    show ?case by simp
  }
qed

text \<open>Modelled from the spec: \<^verbatim>\<open>obj_graph.provide(c)\<close> constructs an instance of the requested
  class; the container keeps the singletons constructed on the way.\<close>

definition provide :: "object_graph \<Rightarrow> cls \<Rightarrow> world \<Rightarrow> (pyval \<times> object_graph) result" where
  "provide g c w = (case construct (bindings g) [] c (singletons g) w of
      (Inl e, w') \<Rightarrow> (Inl e, w')
    | (Inr (v, ch), w') \<Rightarrow> (Inr (v, g\<lparr>singletons := ch\<rparr>), w'))"

section \<open>The binding specification and the four scenarios\<close>

datatype binding_spec = OrderContextBindingSpec

text \<open>\<open>configure\<close> makes one \<open>bind\<close> call; the model returns the bindings it registers.\<close>

definition configure :: "binding_spec \<Rightarrow> binding list" where
  "configure spec = (case spec of OrderContextBindingSpec \<Rightarrow>
     [\<lparr>arg_name = ''order_context'', to_class = MemoryOrderContext, in_scope = PROTOTYPE\<rparr>])"

text \<open>Modelled from the spec: \<open>pinject.new_object_graph\<close>, a container with the bindings of
  the given specifications and nothing cached yet.\<close>

definition new_object_graph :: "binding_spec list \<Rightarrow> object_graph" where
  "new_object_graph binding_specs =
     \<lparr>bindings = concat (map configure binding_specs), singletons = []\<rparr>"

definition process_order_no_di :: "world \<Rightarrow> pyval result" where
  "process_order_no_di =
     and_then SqlLiteOrderContext_init (\<lambda>order_context.
     and_then (OrderService_init order_context) (\<lambda>order_service.
     and_then (Order_init (PyStr ''order-123'')) (\<lambda>order.
     process_order order_service order)))"

definition process_order_di :: "world \<Rightarrow> pyval result" where
  "process_order_di =
     (let obj_graph = new_object_graph [OrderContextBindingSpec] in
      and_then (provide obj_graph OrderService) (\<lambda>(order_service, obj_graph).
      and_then (Order_init (PyStr ''order-123'')) (\<lambda>order.
      process_order order_service order)))"

definition process_order_singleton :: "world \<Rightarrow> pyval result" where
  "process_order_singleton =
     (let obj_graph = new_object_graph [OrderContextBindingSpec] in
      and_then (provide obj_graph OrderService) (\<lambda>(order_service_1, obj_graph).
      and_then (provide obj_graph OrderService) (\<lambda>(order_service_2, obj_graph).
      and_then (get_order_context order_service_1) (\<lambda>c1.
      and_then (get_order_context order_service_2) (\<lambda>c2.
      print (str_bool (py_is c1 c2)))))))"

definition process_order_prototype :: "world \<Rightarrow> pyval result" where
  "process_order_prototype =
     (let obj_graph = new_object_graph [OrderContextBindingSpec] in
      and_then (provide obj_graph OrderService) (\<lambda>(order_service_1, obj_graph).
      and_then (provide obj_graph OrderService) (\<lambda>(order_service_2, obj_graph).
      and_then (get_order_context order_service_1) (\<lambda>c1.
      and_then (get_order_context order_service_2) (\<lambda>c2.
      print (str_bool (py_is c1 c2)))))))"

section \<open>Sequences of calls\<close>

text \<open>
  Not a function of \<^verbatim>\<open>basic.py\<close>: a caller that invokes \<open>process_order\<close> on one service
  once for each entity of a list, in turn, and goes on after a raise. The result is the world
  after the last call.
\<close>

fun process_orders :: "pyval \<Rightarrow> pyval list \<Rightarrow> world \<Rightarrow> world" where
  "process_orders svc [] w = w"
| "process_orders svc (e # es) w = process_orders svc es (snd (process_order svc e w))"

section \<open>Basic facts about the world\<close>

lemma deref_enter: "deref (enter m self arg w) v = deref w v"
  by (cases v) (simp_all add: deref_def enter_def)

lemma type_name_ref: "deref w v = Inr obj \<Longrightarrow> type_name w v = Inr (cls_name (class_of obj))"
  by (cases v) (simp_all add: type_name_def deref_def)

lemma type_name_enter: "type_name (enter m self arg w) v = type_name w v"
  by (cases v) (simp_all add: type_name_def deref_enter)

text \<open>A call of \<open>create_order\<close> on an instance of either context class: the returned value and
  the world it leaves.\<close>

lemma create_order_context:
  assumes d: "deref w ctx = Inr obj"
    and c: "obj = SqlLiteOrderContextObj \<or> obj = MemoryOrderContextObj"
  shows "create_order ctx order w =
     (Inr PyNone, w\<lparr>stdout := stdout w @ ''Order created by '' @ cls_name (class_of obj) @ [CHR 0x0A],
                    calls := calls w @ [(cls_name (class_of obj) @ ''.create_order'', ctx, order)]\<rparr>)"
proof -
  have t: "type_name w ctx = Inr (cls_name (class_of obj))"
    using d by (rule type_name_ref)
  from c show ?thesis
  proof
    assume o: "obj = SqlLiteOrderContextObj"
    have "create_order ctx order w =
        print (''Order created by '' @ cls_name (class_of obj))
          (enter ''SqlLiteOrderContext.create_order'' ctx order w)"
      using d t o
      by (simp add: create_order_def SqlLiteOrderContext_create_order_def Let_def type_name_enter)
    then show ?thesis
      by (simp add: o class_of_def cls_name_def print_def enter_def)
  next
    assume o: "obj = MemoryOrderContextObj"
    have "create_order ctx order w =
        print (''Order created by '' @ cls_name (class_of obj))
          (enter ''MemoryOrderContext.create_order'' ctx order w)"
      using d t o
      by (simp add: create_order_def MemoryOrderContext_create_order_def Let_def type_name_enter)
    then show ?thesis
      by (simp add: o class_of_def cls_name_def print_def enter_def)
  qed
qed

lemma stdout_enter: "stdout (enter m self arg w) = stdout w"
  by (simp add: enter_def)

lemma heap_enter: "heap (enter m self arg w) = heap w"
  by (simp add: enter_def)

text \<open>The body of each \<open>create_order\<close>, for any receiver and any argument.\<close>

lemma SqlLite_create_order_out:
  "SqlLiteOrderContext_create_order self order w =
     (case type_name w self of
        Inl e \<Rightarrow> (Inl e, enter ''SqlLiteOrderContext.create_order'' self order w)
      | Inr n \<Rightarrow> (Inr PyNone, (enter ''SqlLiteOrderContext.create_order'' self order w)
            \<lparr>stdout := stdout w @ ''Order created by '' @ n @ [CHR 0x0A]\<rparr>))"
  by (cases "type_name w self")
    (simp_all add: SqlLiteOrderContext_create_order_def Let_def type_name_enter,
      simp add: print_def enter_def)

lemma Memory_create_order_out:
  "MemoryOrderContext_create_order self order w =
     (case type_name w self of
        Inl e \<Rightarrow> (Inl e, enter ''MemoryOrderContext.create_order'' self order w)
      | Inr n \<Rightarrow> (Inr PyNone, (enter ''MemoryOrderContext.create_order'' self order w)
            \<lparr>stdout := stdout w @ ''Order created by '' @ n @ [CHR 0x0A]\<rparr>))"
  by (cases "type_name w self")
    (simp_all add: MemoryOrderContext_create_order_def Let_def type_name_enter,
      simp add: print_def enter_def)

section \<open>The persist operation\<close>

text \<open>
  Claim C5. For every entity and for each of the two implementations, \<open>create_order\<close> returns
  \<open>None\<close>, leaves the heap as it was, and writes to standard output one line, the text
  \<open>Order created by\<close> followed by the name of the receiver's class; the class name is part of
  the line. The log of calls apart, nothing else in the world changes.
\<close>

theorem create_order_returns_None_prints_class_name:
  assumes d: "deref w ctx = Inr obj"
    and c: "obj = SqlLiteOrderContextObj \<or> obj = MemoryOrderContextObj"
  shows "fst (create_order ctx order w) = Inr PyNone
    \<and> heap (snd (create_order ctx order w)) = heap w
    \<and> stdout (snd (create_order ctx order w)) =
        stdout w @ ''Order created by '' @ cls_name (class_of obj) @ [CHR 0x0A]
    \<and> sublist (cls_name (class_of obj)) (''Order created by '' @ cls_name (class_of obj))"
proof -
  have "sublist (cls_name (class_of obj)) (''Order created by '' @ cls_name (class_of obj) @ [])"
    by (rule sublist_appendI)
  then show ?thesis
    by (simp add: create_order_context [OF d c])
qed

theorem create_order_returns_None_prints_class_name_witness:
  "deref \<lparr>heap = [MemoryOrderContextObj, SqlLiteOrderContextObj], stdout = ''x'', calls = []\<rparr> (PyRef 1)
      = Inr SqlLiteOrderContextObj
   \<and> fst (create_order (PyRef 1) (PyStr ''abc'')
        \<lparr>heap = [MemoryOrderContextObj, SqlLiteOrderContextObj], stdout = ''x'', calls = []\<rparr>) = Inr PyNone
   \<and> stdout (snd (create_order (PyRef 1) (PyStr ''abc'')
        \<lparr>heap = [MemoryOrderContextObj, SqlLiteOrderContextObj], stdout = ''x'', calls = []\<rparr>))
      = ''xOrder created by SqlLiteOrderContext'' @ [CHR 0x0A]"
  using create_order_returns_None_prints_class_name
    [of "\<lparr>heap = [MemoryOrderContextObj, SqlLiteOrderContextObj], stdout = ''x'', calls = []\<rparr>"
        "PyRef 1" SqlLiteOrderContextObj "PyStr ''abc''"]
  by (simp add: deref_def class_of_def cls_name_def)

text \<open>
  Claim C9. What \<open>create_order\<close> returns and what it writes to standard output do not depend
  on the entity argument: for any two arguments (\<open>None\<close> included), any receiver and any
  world, the result and the output are the same. This holds for the dispatched call and for
  the body of each of the two classes.
\<close>

theorem create_order_output_independent_of_order:
  "fst (create_order ctx e1 w) = fst (create_order ctx e2 w)
   \<and> stdout (snd (create_order ctx e1 w)) = stdout (snd (create_order ctx e2 w))
   \<and> fst (SqlLiteOrderContext_create_order ctx e1 w) = fst (SqlLiteOrderContext_create_order ctx e2 w)
   \<and> stdout (snd (SqlLiteOrderContext_create_order ctx e1 w))
       = stdout (snd (SqlLiteOrderContext_create_order ctx e2 w))
   \<and> fst (MemoryOrderContext_create_order ctx e1 w) = fst (MemoryOrderContext_create_order ctx e2 w)
   \<and> stdout (snd (MemoryOrderContext_create_order ctx e1 w))
       = stdout (snd (MemoryOrderContext_create_order ctx e2 w))"
proof -
  have s: "fst (SqlLiteOrderContext_create_order ctx e1 w) = fst (SqlLiteOrderContext_create_order ctx e2 w)
      \<and> stdout (snd (SqlLiteOrderContext_create_order ctx e1 w))
       = stdout (snd (SqlLiteOrderContext_create_order ctx e2 w))"
    by (simp add: SqlLite_create_order_out stdout_enter split: sum.splits)
  have m: "fst (MemoryOrderContext_create_order ctx e1 w) = fst (MemoryOrderContext_create_order ctx e2 w)
      \<and> stdout (snd (MemoryOrderContext_create_order ctx e1 w))
       = stdout (snd (MemoryOrderContext_create_order ctx e2 w))"
    by (simp add: Memory_create_order_out stdout_enter split: sum.splits)
  have d: "fst (create_order ctx e1 w) = fst (create_order ctx e2 w)
   \<and> stdout (snd (create_order ctx e1 w)) = stdout (snd (create_order ctx e2 w))"
    using s m by (simp add: create_order_def split: sum.splits pyobj.splits)
  from s m d show ?thesis by simp
qed

section \<open>Frame facts: what the operations leave alone\<close>

lemma deref_heap_cong: "heap w' = heap w \<Longrightarrow> deref w' v = deref w v"
  by (cases v) (simp_all add: deref_def)

lemma heap_SqlLite_create_order: "heap (snd (SqlLiteOrderContext_create_order self order w)) = heap w"
  by (simp add: SqlLite_create_order_out heap_enter split: sum.splits)

lemma heap_Memory_create_order: "heap (snd (MemoryOrderContext_create_order self order w)) = heap w"
  by (simp add: Memory_create_order_out heap_enter split: sum.splits)

lemma heap_create_order: "heap (snd (create_order ctx order w)) = heap w"
  by (simp add: create_order_def heap_SqlLite_create_order heap_Memory_create_order
      split: sum.splits pyobj.splits)

text \<open>A call of \<open>process_order\<close> on a service: the world is that of one \<open>create_order\<close> call on
  the held dependency, made after the entry of \<open>process_order\<close> is logged; a raise of the
  dependency is the raise of \<open>process_order\<close>.\<close>

lemma process_order_service:
  assumes "deref w svc = Inr (OrderServiceObj dep)"
  shows "process_order svc order w =
    (case create_order dep order (enter ''OrderService.process_order'' svc order w) of
       (Inl x, w') \<Rightarrow> (Inl x, w')
     | (Inr r, w') \<Rightarrow> (Inr PyNone, w'))"
  using assms
  by (simp add: process_order_def OrderService_process_order_def and_then_def
      get_order_context_def deref_enter split: prod.splits sum.splits)

lemma heap_process_order: "heap (snd (process_order svc order w)) = heap w"
proof (cases "deref w svc")
  case (Inl e)
  then show ?thesis by (simp add: process_order_def)
next
  case (Inr obj)
  show ?thesis
  proof (cases obj)
    case (OrderServiceObj dep)
    have "heap (snd (create_order dep order (enter ''OrderService.process_order'' svc order w))) = heap w"
      by (simp add: heap_create_order heap_enter)
    then show ?thesis
      using Inr OrderServiceObj
      by (auto simp: process_order_service split: prod.splits sum.splits)
  qed (simp_all add: Inr process_order_def)
qed

lemma heap_process_orders: "heap (process_orders svc es w) = heap w"
  by (induction es arbitrary: w) (simp_all add: heap_process_order)

lemma fst_get_order_id_cong:
  "heap w' = heap w \<Longrightarrow> fst (get_order_id v w') = fst (get_order_id v w)"
  by (simp add: get_order_id_def deref_heap_cong [of w' w] split: sum.splits pyobj.splits)

section \<open>The service\<close>

text \<open>
  Claim C4. For every entity and every service that holds an instance of one of the two
  context classes, \<open>process_order\<close> calls \<open>create_order\<close> of the held instance exactly once,
  with the entity it was given, and does nothing else: it returns \<open>None\<close>, the heap is as
  before, standard output has the one line of that call, and the log of calls has grown by
  the entry of \<open>process_order\<close> followed by a single entry of \<open>create_order\<close>, whose receiver
  is the held instance and whose argument is the entity.
\<close>

theorem process_order_delegates_once:
  assumes s: "deref w svc = Inr (OrderServiceObj dep)"
    and d: "deref w dep = Inr obj"
    and c: "obj = SqlLiteOrderContextObj \<or> obj = MemoryOrderContextObj"
  shows "process_order svc e w =
    (Inr PyNone,
     w\<lparr>stdout := stdout w @ ''Order created by '' @ cls_name (class_of obj) @ [CHR 0x0A],
       calls := calls w @ [(''OrderService.process_order'', svc, e),
                           (cls_name (class_of obj) @ ''.create_order'', dep, e)]\<rparr>)"
proof -
  let ?w1 = "enter ''OrderService.process_order'' svc e w"
  have "deref ?w1 dep = Inr obj"
    using d by (simp add: deref_enter)
  from create_order_context [OF this c, of e]
  show ?thesis
    by (simp add: process_order_service [OF s] enter_def)
qed

theorem process_order_delegates_once_witness:
  "deref \<lparr>heap = [MemoryOrderContextObj, OrderServiceObj (PyRef 0), OrderObj (PyStr ''o1'')],
          stdout = [], calls = []\<rparr> (PyRef 1) = Inr (OrderServiceObj (PyRef 0))
   \<and> process_order (PyRef 1) (PyRef 2)
        \<lparr>heap = [MemoryOrderContextObj, OrderServiceObj (PyRef 0), OrderObj (PyStr ''o1'')],
          stdout = [], calls = []\<rparr> =
      (Inr PyNone,
       \<lparr>heap = [MemoryOrderContextObj, OrderServiceObj (PyRef 0), OrderObj (PyStr ''o1'')],
         stdout = ''Order created by MemoryOrderContext'' @ [CHR 0x0A],
         calls = [(''OrderService.process_order'', PyRef 1, PyRef 2),
                  (''MemoryOrderContext.create_order'', PyRef 0, PyRef 2)]\<rparr>)"
  using process_order_delegates_once
    [of "\<lparr>heap = [MemoryOrderContextObj, OrderServiceObj (PyRef 0), OrderObj (PyStr ''o1'')],
          stdout = [], calls = []\<rparr>" "PyRef 1" "PyRef 0" MemoryOrderContextObj "PyRef 2"]
  by (simp add: deref_def class_of_def cls_name_def)

text \<open>
  Claim C6. A service holds one reference, the one given to its constructor: right after
  construction \<open>order_context\<close> is that reference, and after any sequence of
  \<open>process_order\<close> calls on the service, whatever the entities and whether or not a call
  raises, it still is; the heap as a whole is as it was after construction.
\<close>

theorem order_context_never_reassigned:
  assumes i: "OrderService_init ctx w0 = (Inr svc, w1)"
  shows "fst (get_order_context svc w1) = Inr ctx
    \<and> fst (get_order_context svc (process_orders svc es w1)) = Inr ctx
    \<and> heap (process_orders svc es w1) = heap w1"
proof -
  from i have svc: "svc = PyRef (length (heap w0))" and w1: "heap w1 = heap w0 @ [OrderServiceObj ctx]"
    by (auto simp: OrderService_init_def alloc_def)
  have d1: "deref w1 svc = Inr (OrderServiceObj ctx)"
    by (simp add: deref_def svc w1)
  have h: "heap (process_orders svc es w1) = heap w1"
    by (rule heap_process_orders)
  have d2: "deref (process_orders svc es w1) svc = Inr (OrderServiceObj ctx)"
    using d1 by (simp add: deref_heap_cong [OF h])
  show ?thesis
    using d1 d2 h by (simp add: get_order_context_def)
qed

theorem order_context_never_reassigned_witness:
  "OrderService_init (PyRef 0) \<lparr>heap = [SqlLiteOrderContextObj], stdout = [], calls = []\<rparr> =
     (Inr (PyRef 1),
      \<lparr>heap = [SqlLiteOrderContextObj, OrderServiceObj (PyRef 0)], stdout = [], calls = []\<rparr>)
   \<and> fst (get_order_context (PyRef 1)
        (process_orders (PyRef 1) [PyNone, PyStr ''a'']
          \<lparr>heap = [SqlLiteOrderContextObj, OrderServiceObj (PyRef 0)], stdout = [], calls = []\<rparr>))
      = Inr (PyRef 0)"
  using order_context_never_reassigned
    [of "PyRef 0" "\<lparr>heap = [SqlLiteOrderContextObj], stdout = [], calls = []\<rparr>" "PyRef 1"
        "\<lparr>heap = [SqlLiteOrderContextObj, OrderServiceObj (PyRef 0)], stdout = [], calls = []\<rparr>"
        "[PyNone, PyStr ''a'']"]
  by (simp add: OrderService_init_def alloc_def)

section \<open>The entity\<close>

text \<open>
  Claim C7. An order is not changed by the operations applied to it: right after
  \<open>Order(order_id)\<close> the attribute \<open>order_id\<close> is the value given to the constructor, and it
  still is after \<open>process_order\<close> of any service on the order and after \<open>create_order\<close> of
  any receiver on it (the dispatched call and the body of either class), whether or not the
  call raises.
\<close>

theorem order_id_unchanged:
  assumes i: "Order_init oid w0 = (Inr e, w1)"
  shows "fst (get_order_id e w1) = Inr oid
    \<and> fst (get_order_id e (snd (process_order svc e w1))) = Inr oid
    \<and> fst (get_order_id e (snd (create_order ctx e w1))) = Inr oid
    \<and> fst (get_order_id e (snd (SqlLiteOrderContext_create_order ctx e w1))) = Inr oid
    \<and> fst (get_order_id e (snd (MemoryOrderContext_create_order ctx e w1))) = Inr oid"
proof -
  from i have e: "e = PyRef (length (heap w0))" and w1: "heap w1 = heap w0 @ [OrderObj oid]"
    by (auto simp: Order_init_def alloc_def)
  have g: "fst (get_order_id e w1) = Inr oid"
    by (simp add: get_order_id_def deref_def e w1)
  show ?thesis
    by (simp add: g fst_get_order_id_cong [OF heap_process_order]
        fst_get_order_id_cong [OF heap_create_order]
        fst_get_order_id_cong [OF heap_SqlLite_create_order]
        fst_get_order_id_cong [OF heap_Memory_create_order])
qed

theorem order_id_unchanged_witness:
  "Order_init (PyStr ''order-123'')
      \<lparr>heap = [SqlLiteOrderContextObj, OrderServiceObj (PyRef 0)], stdout = [], calls = []\<rparr> =
     (Inr (PyRef 2),
      \<lparr>heap = [SqlLiteOrderContextObj, OrderServiceObj (PyRef 0), OrderObj (PyStr ''order-123'')],
        stdout = [], calls = []\<rparr>)
   \<and> fst (get_order_id (PyRef 2) (snd (process_order (PyRef 1) (PyRef 2)
        \<lparr>heap = [SqlLiteOrderContextObj, OrderServiceObj (PyRef 0), OrderObj (PyStr ''order-123'')],
          stdout = [], calls = []\<rparr>))) = Inr (PyStr ''order-123'')"
  using order_id_unchanged
    [of "PyStr ''order-123''"
        "\<lparr>heap = [SqlLiteOrderContextObj, OrderServiceObj (PyRef 0)], stdout = [], calls = []\<rparr>"
        "PyRef 2"
        "\<lparr>heap = [SqlLiteOrderContextObj, OrderServiceObj (PyRef 0), OrderObj (PyStr ''order-123'')],
          stdout = [], calls = []\<rparr>"
        "PyRef 1" "PyRef 0"]
  by (simp add: Order_init_def alloc_def)

section \<open>The container with the binding of the source\<close>

text \<open>\<open>provide(OrderService)\<close> on the container built from \<open>OrderContextBindingSpec\<close>, in any
  world: it returns, it allocates a fresh \<open>MemoryOrderContext\<close> and then the service that holds
  it, and the container is as before.\<close>

lemma provide_spec_graph:
  "provide (new_object_graph [OrderContextBindingSpec]) OrderService w =
     (Inr (PyRef (Suc (length (heap w))), new_object_graph [OrderContextBindingSpec]),
      w\<lparr>heap := heap w @ [MemoryOrderContextObj, OrderServiceObj (PyRef (length (heap w)))]\<rparr>)"
  by (simp add: provide_def new_object_graph_def configure_def init_args_def
      instantiate_def OrderService_init_def MemoryOrderContext_init_def alloc_def)

text \<open>
  Claim C2. On the container built from the binding specification of the source, which binds
  \<open>order_context\<close> in prototype scope, any two \<open>provide(OrderService)\<close> calls return services
  whose dependencies are distinct instances: the first call is made in any world, the second
  in any later world (one whose heap extends the heap the first call left), both calls
  return, the container is unchanged, and in the final world the two \<open>order_context\<close>
  attributes are references to two \<open>MemoryOrderContext\<close> instances that are not identical.
\<close>

theorem prototype_scope_distinct_dependencies:
  assumes g: "g = new_object_graph [OrderContextBindingSpec]"
    and grow: "prefix (heap (snd (provide g OrderService w))) (heap w2)"
  shows "\<exists>s1 s2 c1 c2.
      fst (provide g OrderService w) = Inr (s1, g)
    \<and> fst (provide g OrderService w2) = Inr (s2, g)
    \<and> fst (get_order_context s1 (snd (provide g OrderService w2))) = Inr c1
    \<and> fst (get_order_context s2 (snd (provide g OrderService w2))) = Inr c2
    \<and> deref (snd (provide g OrderService w2)) c1 = Inr MemoryOrderContextObj
    \<and> deref (snd (provide g OrderService w2)) c2 = Inr MemoryOrderContextObj
    \<and> \<not> py_is c1 c2"
proof -
  let ?n = "length (heap w)"
  let ?m = "length (heap w2)"
  let ?w3 = "snd (provide g OrderService w2)"
  from grow obtain zs where
    h2: "heap w2 = heap w @ [MemoryOrderContextObj, OrderServiceObj (PyRef ?n)] @ zs"
    by (auto simp: g provide_spec_graph prefix_def)
  have h3: "heap ?w3 = heap w @ [MemoryOrderContextObj, OrderServiceObj (PyRef ?n)] @ zs
      @ [MemoryOrderContextObj, OrderServiceObj (PyRef ?m)]"
    by (simp add: g provide_spec_graph h2)
  have m: "?m = ?n + 2 + length zs"
    by (simp add: h2)
  have l3: "length (heap ?w3) = ?m + 2"
    by (simp add: g provide_spec_graph)
  have a: "heap ?w3 ! ?n = MemoryOrderContextObj"
    by (simp add: h3 nth_append)
  have b: "heap ?w3 ! Suc ?n = OrderServiceObj (PyRef ?n)"
    by (simp add: h3 nth_append)
  have h3': "heap ?w3 = heap w2 @ [MemoryOrderContextObj, OrderServiceObj (PyRef ?m)]"
    by (simp add: g provide_spec_graph)
  have c: "heap ?w3 ! ?m = MemoryOrderContextObj"
    by (simp add: h3' nth_append)
  have d: "heap ?w3 ! Suc ?m = OrderServiceObj (PyRef ?m)"
    by (simp add: h3' nth_append)
  have p1: "fst (provide g OrderService w) = Inr (PyRef (Suc ?n), g)"
    by (simp add: g provide_spec_graph)
  have p2: "fst (provide g OrderService w2) = Inr (PyRef (Suc ?m), g)"
    by (simp add: g provide_spec_graph)
  have c1: "fst (get_order_context (PyRef (Suc ?n)) ?w3) = Inr (PyRef ?n)"
    using b l3 m by (simp add: get_order_context_def deref_def)
  have c2: "fst (get_order_context (PyRef (Suc ?m)) ?w3) = Inr (PyRef ?m)"
    using d l3 by (simp add: get_order_context_def deref_def)
  have d1: "deref ?w3 (PyRef ?n) = Inr MemoryOrderContextObj"
    using a l3 m by (simp add: deref_def)
  have d2: "deref ?w3 (PyRef ?m) = Inr MemoryOrderContextObj"
    using c l3 by (simp add: deref_def)
  have ne: "\<not> py_is (PyRef ?n) (PyRef ?m)"
    using m by (simp add: py_is_def)
  from p1 p2 c1 c2 d1 d2 ne show ?thesis by blast
qed

theorem prototype_scope_distinct_dependencies_witness:
  "prefix (heap (snd (provide (new_object_graph [OrderContextBindingSpec]) OrderService
        \<lparr>heap = [], stdout = [], calls = []\<rparr>)))
     (heap \<lparr>heap = [MemoryOrderContextObj, OrderServiceObj (PyRef 0), OrderObj (PyStr ''o1'')],
            stdout = [], calls = []\<rparr>)
   \<and> (\<exists>s1 s2 c1 c2.
      fst (provide (new_object_graph [OrderContextBindingSpec]) OrderService
        \<lparr>heap = [], stdout = [], calls = []\<rparr>) = Inr (s1, new_object_graph [OrderContextBindingSpec])
    \<and> fst (provide (new_object_graph [OrderContextBindingSpec]) OrderService
        \<lparr>heap = [MemoryOrderContextObj, OrderServiceObj (PyRef 0), OrderObj (PyStr ''o1'')],
            stdout = [], calls = []\<rparr>) = Inr (s2, new_object_graph [OrderContextBindingSpec])
    \<and> fst (get_order_context s1 (snd (provide (new_object_graph [OrderContextBindingSpec]) OrderService
        \<lparr>heap = [MemoryOrderContextObj, OrderServiceObj (PyRef 0), OrderObj (PyStr ''o1'')],
            stdout = [], calls = []\<rparr>))) = Inr c1
    \<and> fst (get_order_context s2 (snd (provide (new_object_graph [OrderContextBindingSpec]) OrderService
        \<lparr>heap = [MemoryOrderContextObj, OrderServiceObj (PyRef 0), OrderObj (PyStr ''o1'')],
            stdout = [], calls = []\<rparr>))) = Inr c2
    \<and> \<not> py_is c1 c2)"
proof -
  have pre: "prefix (heap (snd (provide (new_object_graph [OrderContextBindingSpec]) OrderService
        \<lparr>heap = [], stdout = [], calls = []\<rparr>)))
     (heap \<lparr>heap = [MemoryOrderContextObj, OrderServiceObj (PyRef 0), OrderObj (PyStr ''o1'')],
            stdout = [], calls = []\<rparr>)"
    by (simp add: provide_spec_graph)
  from prototype_scope_distinct_dependencies [OF refl pre] pre
  show ?thesis by blast
qed

section \<open>Requests the container cannot resolve\<close>

text \<open>
  Claim C8. A request for a class one of whose declared constructor arguments has no binding
  fails at \<open>provide\<close> time with \<open>BindingNotFoundError\<close>: no value is returned, nothing is
  allocated and the world is as before. (Every class of the source declares at most one
  constructor argument.)
\<close>

theorem provide_unbound_dependency_raises:
  assumes n: "n \<in> set (init_args c)"
    and u: "n \<notin> arg_name ` set (bindings g)"
  shows "provide g c w = (Inl BindingNotFoundError, w)"
proof -
  from n have ia: "init_args c = [n]"
    by (cases c) (simp_all add: init_args_def)
  from u have f: "filter (\<lambda>b. arg_name b = n) (bindings g) = []"
    by (auto simp: filter_empty_conv)
  have "resolve_arg (bindings g) [] n (singletons g) w = (Inl BindingNotFoundError, w)"
    by (simp add: f)
  then show ?thesis
    by (simp add: provide_def ia)
qed

theorem provide_unbound_dependency_raises_witness:
  "''order_id'' \<in> set (init_args Order)
   \<and> ''order_id'' \<notin> arg_name ` set (bindings (new_object_graph [OrderContextBindingSpec]))
   \<and> provide (new_object_graph [OrderContextBindingSpec]) Order \<lparr>heap = [], stdout = [], calls = []\<rparr>
       = (Inl BindingNotFoundError, \<lparr>heap = [], stdout = [], calls = []\<rparr>)"
  using provide_unbound_dependency_raises
    [of "''order_id''" Order "new_object_graph [OrderContextBindingSpec]"
        "\<lparr>heap = [], stdout = [], calls = []\<rparr>"]
  by (simp add: init_args_def new_object_graph_def configure_def)

section \<open>The scenarios\<close>

lemma spec_graph_scopes:
  "map in_scope (bindings (new_object_graph [OrderContextBindingSpec])) = [PROTOTYPE]"
  by (simp add: new_object_graph_def configure_def)

lemma process_order_prototype_result:
  "process_order_prototype w =
     (Inr PyNone,
      w\<lparr>heap := heap w @ [MemoryOrderContextObj, OrderServiceObj (PyRef (length (heap w))),
                           MemoryOrderContextObj, OrderServiceObj (PyRef (Suc (Suc (length (heap w)))))],
        stdout := stdout w @ ''False'' @ [CHR 0x0A]\<rparr>)"
  by (simp add: process_order_prototype_def Let_def and_then_def provide_spec_graph
      get_order_context_def deref_def nth_append py_is_def str_bool_def print_def)

lemma process_order_singleton_result:
  "process_order_singleton w =
     (Inr PyNone,
      w\<lparr>heap := heap w @ [MemoryOrderContextObj, OrderServiceObj (PyRef (length (heap w))),
                           MemoryOrderContextObj, OrderServiceObj (PyRef (Suc (Suc (length (heap w)))))],
        stdout := stdout w @ ''False'' @ [CHR 0x0A]\<rparr>)"
  by (simp add: process_order_singleton_def Let_def and_then_def provide_spec_graph
      get_order_context_def deref_def nth_append py_is_def str_bool_def print_def)

text \<open>The same two \<open>provide\<close> calls and comparison on a container whose binding has singleton
  scope: one \<open>MemoryOrderContext\<close> is allocated, both services hold it, and \<open>True\<close> is printed.\<close>

lemma singleton_scope_shared_dependency:
  "and_then (provide \<lparr>bindings = [\<lparr>arg_name = ''order_context'', to_class = MemoryOrderContext,
                                      in_scope = SINGLETON\<rparr>], singletons = []\<rparr> OrderService)
     (\<lambda>(order_service_1, obj_graph).
       and_then (provide obj_graph OrderService) (\<lambda>(order_service_2, obj_graph).
       and_then (get_order_context order_service_1) (\<lambda>c1.
       and_then (get_order_context order_service_2) (\<lambda>c2.
       print (str_bool (py_is c1 c2)))))) w =
     (Inr PyNone,
      w\<lparr>heap := heap w @ [MemoryOrderContextObj, OrderServiceObj (PyRef (length (heap w))),
                           OrderServiceObj (PyRef (length (heap w)))],
        stdout := stdout w @ ''True'' @ [CHR 0x0A]\<rparr>)"
  by (simp add: and_then_def provide_def init_args_def instantiate_def OrderService_init_def
      MemoryOrderContext_init_def alloc_def get_order_context_def deref_def nth_append
      py_is_def str_bool_def print_def)

text \<open>
  Claim C1. The singleton-identity scenario of the source, \<open>process_order_singleton\<close>, builds
  its container from \<open>OrderContextBindingSpec\<close>, whose one binding has prototype scope, not
  singleton scope; in any world it returns after allocating two \<open>MemoryOrderContext\<close>
  instances, one for each service, and prints \<open>False\<close>: the two services do not hold the
  identical instance.
\<close>

theorem process_order_singleton_prints_False:
  "map in_scope (bindings (new_object_graph [OrderContextBindingSpec])) = [PROTOTYPE]
   \<and> process_order_singleton w =
     (Inr PyNone,
      w\<lparr>heap := heap w @ [MemoryOrderContextObj, OrderServiceObj (PyRef (length (heap w))),
                           MemoryOrderContextObj, OrderServiceObj (PyRef (Suc (Suc (length (heap w)))))],
        stdout := stdout w @ ''False'' @ [CHR 0x0A]\<rparr>)"
  by (simp only: spec_graph_scopes process_order_singleton_result simp_thms)

text \<open>
  Claim C10. The singleton scenario and the prototype scenario are the same program: the two
  functions are equal, both build the container from the one binding specification, whose
  binding has prototype scope, and in any world both write the line \<open>False\<close>.
\<close>

theorem singleton_and_prototype_scenarios_equal:
  "process_order_singleton = process_order_prototype
   \<and> map in_scope (bindings (new_object_graph [OrderContextBindingSpec])) = [PROTOTYPE]
   \<and> stdout (snd (process_order_singleton w)) = stdout w @ ''False'' @ [CHR 0x0A]
   \<and> stdout (snd (process_order_prototype w)) = stdout w @ ''False'' @ [CHR 0x0A]"
proof -
  have "process_order_singleton = process_order_prototype"
    by (simp add: process_order_singleton_def process_order_prototype_def)
  then show ?thesis
    by (simp add: spec_graph_scopes process_order_prototype_result)
qed

lemma process_order_no_di_result:
  "process_order_no_di w =
     (Inr PyNone,
      w\<lparr>heap := heap w @ [SqlLiteOrderContextObj, OrderServiceObj (PyRef (length (heap w))),
                           OrderObj (PyStr ''order-123'')],
        stdout := stdout w @ ''Order created by SqlLiteOrderContext'' @ [CHR 0x0A],
        calls := calls w @
          [(''OrderService.process_order'', PyRef (Suc (length (heap w))), PyRef (Suc (Suc (length (heap w))))),
           (''SqlLiteOrderContext.create_order'', PyRef (length (heap w)), PyRef (Suc (Suc (length (heap w)))))]\<rparr>)"
proof -
  let ?n = "length (heap w)"
  let ?w3 = "w\<lparr>heap := heap w @ [SqlLiteOrderContextObj, OrderServiceObj (PyRef ?n),
                           OrderObj (PyStr ''order-123'')]\<rparr>"
  have s: "deref ?w3 (PyRef (Suc ?n)) = Inr (OrderServiceObj (PyRef ?n))"
    by (simp add: deref_def nth_append)
  have d: "deref (enter ''OrderService.process_order'' (PyRef (Suc ?n)) (PyRef (Suc (Suc ?n))) ?w3) (PyRef ?n)
      = Inr SqlLiteOrderContextObj"
    by (simp add: deref_enter) (simp add: deref_def nth_append)
  have p: "process_order (PyRef (Suc ?n)) (PyRef (Suc (Suc ?n))) ?w3 =
      (Inr PyNone,
       ?w3\<lparr>stdout := stdout w @ ''Order created by SqlLiteOrderContext'' @ [CHR 0x0A],
         calls := calls w @
          [(''OrderService.process_order'', PyRef (Suc ?n), PyRef (Suc (Suc ?n))),
           (''SqlLiteOrderContext.create_order'', PyRef ?n, PyRef (Suc (Suc ?n)))]\<rparr>)"
    by (subst process_order_service [OF s], subst create_order_context [OF d], simp)
      (simp add: class_of_def cls_name_def enter_def)
  have "process_order_no_di w = process_order (PyRef (Suc ?n)) (PyRef (Suc (Suc ?n))) ?w3"
    by (simp add: process_order_no_di_def and_then_def SqlLiteOrderContext_init_def
        OrderService_init_def Order_init_def alloc_def)
  with p show ?thesis by simp
qed

lemma process_order_di_result:
  "process_order_di w =
     (Inr PyNone,
      w\<lparr>heap := heap w @ [MemoryOrderContextObj, OrderServiceObj (PyRef (length (heap w))),
                           OrderObj (PyStr ''order-123'')],
        stdout := stdout w @ ''Order created by MemoryOrderContext'' @ [CHR 0x0A],
        calls := calls w @
          [(''OrderService.process_order'', PyRef (Suc (length (heap w))), PyRef (Suc (Suc (length (heap w))))),
           (''MemoryOrderContext.create_order'', PyRef (length (heap w)), PyRef (Suc (Suc (length (heap w)))))]\<rparr>)"
proof -
  let ?n = "length (heap w)"
  let ?w3 = "w\<lparr>heap := heap w @ [MemoryOrderContextObj, OrderServiceObj (PyRef ?n),
                           OrderObj (PyStr ''order-123'')]\<rparr>"
  have s: "deref ?w3 (PyRef (Suc ?n)) = Inr (OrderServiceObj (PyRef ?n))"
    by (simp add: deref_def nth_append)
  have d: "deref (enter ''OrderService.process_order'' (PyRef (Suc ?n)) (PyRef (Suc (Suc ?n))) ?w3) (PyRef ?n)
      = Inr MemoryOrderContextObj"
    by (simp add: deref_enter) (simp add: deref_def nth_append)
  have p: "process_order (PyRef (Suc ?n)) (PyRef (Suc (Suc ?n))) ?w3 =
      (Inr PyNone,
       ?w3\<lparr>stdout := stdout w @ ''Order created by MemoryOrderContext'' @ [CHR 0x0A],
         calls := calls w @
          [(''OrderService.process_order'', PyRef (Suc ?n), PyRef (Suc (Suc ?n))),
           (''MemoryOrderContext.create_order'', PyRef ?n, PyRef (Suc (Suc ?n)))]\<rparr>)"
    by (subst process_order_service [OF s], subst create_order_context [OF d], simp)
      (simp add: class_of_def cls_name_def enter_def)
  have "process_order_di w = process_order (PyRef (Suc ?n)) (PyRef (Suc (Suc ?n))) ?w3"
    by (simp add: process_order_di_def Let_def and_then_def provide_spec_graph
        Order_init_def alloc_def)
  with p show ?thesis by simp
qed

text \<open>
  Claim C3, as stated, fails: from the empty world the manual-wiring scenario and the
  container-resolved scenario write different text to standard output.
\<close>

theorem manual_and_container_outputs_differ:
  "stdout (snd (process_order_no_di \<lparr>heap = [], stdout = [], calls = []\<rparr>))
     \<noteq> stdout (snd (process_order_di \<lparr>heap = [], stdout = [], calls = []\<rparr>))"
  by (simp add: process_order_no_di_result process_order_di_result)

text \<open>
  Claim C3, amended. In any world both scenarios return \<open>None\<close> without raising, each after
  one \<open>process_order\<close> call that makes one \<open>create_order\<close> call, and each writes one line to
  standard output, \<open>Order created by\<close> followed by the class of the injected context:
  \<open>SqlLiteOrderContext\<close> under manual wiring, \<open>MemoryOrderContext\<close> under the container. The
  two outputs have the same form and differ in the class name only.
\<close>

theorem manual_and_container_wiring_outputs:
  "fst (process_order_no_di w) = Inr PyNone
   \<and> fst (process_order_di w) = Inr PyNone
   \<and> stdout (snd (process_order_no_di w))
       = stdout w @ ''Order created by '' @ cls_name SqlLiteOrderContext @ [CHR 0x0A]
   \<and> stdout (snd (process_order_di w))
       = stdout w @ ''Order created by '' @ cls_name MemoryOrderContext @ [CHR 0x0A]
   \<and> map fst (calls (snd (process_order_no_di w)))
       = map fst (calls w) @ [''OrderService.process_order'', ''SqlLiteOrderContext.create_order'']
   \<and> map fst (calls (snd (process_order_di w)))
       = map fst (calls w) @ [''OrderService.process_order'', ''MemoryOrderContext.create_order'']"
  by (simp add: process_order_no_di_result process_order_di_result cls_name_def)

end
